theory Spec2Isabelle
  imports Main
begin

section \<open>Data model\<close>

text \<open>
  The values an event's content can carry, as far as their truthiness is concerned:
  content is parsed JSON, so a key is absent (\<open>undefined\<close>), \<open>null\<close>, a boolean, a
  number, a string, or an array or object (always truthy, contents irrelevant here).
\<close>

datatype jsval = JUndefined | JNull | JBool bool | JNum int | JStr string | JObj

fun truthy :: "jsval \<Rightarrow> bool" where
  "truthy JUndefined = False"
| "truthy JNull = False"
| "truthy (JBool b) = b"
| "truthy (JNum n) = (n \<noteq> 0)"
| "truthy (JStr s) = (s \<noteq> [])"
| "truthy JObj = True"

text \<open>
  A \<open>MatrixEvent\<close>: \<open>getType()\<close>, \<open>getContent()\<close> (an object, keys to values) and
  \<open>event.origin_server_ts\<close>.
\<close>

record matrix_event =
  getType :: string
  getContent :: "(string \<times> jsval) list"
  origin_server_ts :: int

text \<open>Property access on a JS object: a missing key reads as \<open>undefined\<close>.\<close>

definition js_get :: "(string \<times> jsval) list \<Rightarrow> string \<Rightarrow> jsval" where
  "js_get obj k = (case map_of obj k of None \<Rightarrow> JUndefined | Some v \<Rightarrow> v)"

text \<open>
  A \<open>RoomMember\<close> (only its \<open>membership\<close> is read), and a \<open>Room\<close>:
  \<open>currentState.members\<close> is an object keyed by user id (an association list, whose keys
  are \<open>Object.keys\<close>), \<open>getMyMembership()\<close> the caller's own membership, and
  \<open>createEvents\<close> what \<open>currentState.getStateEvents("m.room.create")\<close> returns.
  A membership that is \<open>null\<close> or \<open>undefined\<close> behaves like any string other than
  the three names the code compares with.
\<close>

record room_member =
  membership :: string

record matrix_room =
  roomId :: string
  members :: "(string \<times> room_member) list"
  getMyMembership :: string
  createEvents :: "matrix_event list"

text \<open>
  The client \<open>MatrixClientPeg.get()\<close>: \<open>getUserId()\<close>, \<open>getRooms()\<close> and the two invite
  operations, whose result (a promise of the SDK) is kept abstract as \<open>'p\<close>.
\<close>

record 'p matrix_client =
  getUserId :: string
  getRooms :: "matrix_room list"
  inviteByEmail :: "string \<Rightarrow> string \<Rightarrow> 'p"
  invite :: "string \<Rightarrow> string \<Rightarrow> 'p"

text \<open>
  What the code can raise: a \<open>TypeError\<close> on reading a property of \<open>undefined\<close>, and
  \<open>Error('Unsupported address')\<close>.
\<close>

datatype error = TypeError | UnsupportedAddress

section \<open>Inviting one address\<close>

text \<open>
  \<open>_inviteToRoom(roomId, addr)\<close>. \<open>getAddressType\<close> lives in \<open>UserAddress\<close>, outside
  these sources, and is a parameter: it returns a string or \<open>null\<close>.
\<close>

definition inviteToRoom ::
  "(string \<Rightarrow> string option) \<Rightarrow> 'p matrix_client \<Rightarrow> string \<Rightarrow> string \<Rightarrow> error + 'p" where
  "inviteToRoom getAddressType client rid addr =
     (let addrType = getAddressType addr in
      if addrType = Some ''email'' then Inr (inviteByEmail client rid addr)
      else if addrType = Some ''mx-user-id'' then Inr (invite client rid addr)
      else Inl UnsupportedAddress)"

section \<open>Third-party invites\<close>

definition requiredKeys :: "string list" where
  "requiredKeys = [''key_validity_url'', ''public_key'', ''display_name'']"

text \<open>The \<open>for\<close> loop of \<open>isValid3pidInvite\<close>, from index \<open>i\<close> on.\<close>

function requiredKeysLoop :: "matrix_event \<Rightarrow> nat \<Rightarrow> bool" where
  "requiredKeysLoop event i =
     (if i < length requiredKeys then
        (if \<not> truthy (js_get (getContent event) (requiredKeys ! i)) then False
         else requiredKeysLoop event (Suc i))
      else True)"
  by pat_completeness auto
termination
  by (relation "measure (\<lambda>(event, i). length requiredKeys - i)") auto

declare requiredKeysLoop.simps [simp del]

text \<open>\<open>isValid3pidInvite(event)\<close>; a \<open>null\<close> or \<open>undefined\<close> event is \<open>None\<close>.\<close>

definition isValid3pidInvite :: "matrix_event option \<Rightarrow> bool" where
  "isValid3pidInvite event =
     (case event of
        None \<Rightarrow> False
      | Some e \<Rightarrow>
          if getType e \<noteq> ''m.room.third_party_invite'' then False
          else requiredKeysLoop e 0)"

section \<open>Selecting an existing direct chat\<close>

text \<open>
  \<open>_getDirectMessageRooms(addr)\<close>: the callback returns \<open>true\<close> or nothing
  (\<open>undefined\<close>, which \<open>filter\<close> reads as false).
\<close>

definition getDirectMessageRooms :: "'p matrix_client \<Rightarrow> string \<Rightarrow> matrix_room list" where
  "getDirectMessageRooms matrixClient addr =
     (let currentUserId = getUserId matrixClient;
          rooms = getRooms matrixClient
      in filter (\<lambda>r. let users = map fst (members r)
                      in length users = 2 \<and> addr \<in> set users \<and> currentUserId \<in> set users)
           rooms)"

text \<open>
  The running \<open>selectedRoom\<close> of \<open>_selectDirectChat\<close>; \<open>null\<close> fields are \<open>None\<close>.
\<close>

record selected_room =
  room :: "matrix_room option"
  status :: "string option"
  date :: "int option"
  weight :: nat

definition noSelection :: selected_room where
  "noSelection = \<lparr>room = None, status = None, date = None, weight = 0\<rparr>"

text \<open>
  \<open>roomCreateEvent[0] ? roomCreateEvent[0].event.origin_server_ts : 0\<close>.
\<close>

definition roomCreateEventDate :: "matrix_room \<Rightarrow> int" where
  "roomCreateEventDate r =
     (case createEvents r of [] \<Rightarrow> 0 | e # _ \<Rightarrow> origin_server_ts e)"

text \<open>
  \<open>roomCreateEventDate < selectedRoom.date\<close>: JavaScript compares a number with
  \<open>null\<close> as with 0.
\<close>

definition date_less :: "int \<Rightarrow> int option \<Rightarrow> bool" where
  "date_less d sel = (case sel of None \<Rightarrow> d < 0 | Some d' \<Rightarrow> d < d')"

text \<open>
  The condition guarding each of the four assignments, with \<open>w\<close> the weight of the
  branch (4, 3, 2, 1). Inside the loop the variable always holds an object literal, so
  the source's first disjunct \<open>selectedRoom === null\<close> is constantly false there.
\<close>

definition replaces :: "selected_room \<Rightarrow> nat \<Rightarrow> int \<Rightarrow> bool" where
  "replaces selectedRoom w roomDate =
     (weight selectedRoom < w \<or>
      (weight selectedRoom = w \<and> date_less roomDate (date selectedRoom)))"

text \<open>
  The body of the \<open>forEach\<close> callback. \<open>members[userId]\<close> of an absent user is
  \<open>undefined\<close>, and reading its \<open>membership\<close> raises a \<open>TypeError\<close>.
\<close>

definition visitRoom :: "string \<Rightarrow> selected_room \<Rightarrow> matrix_room \<Rightarrow> error + selected_room" where
  "visitRoom userId selectedRoom r =
     (case map_of (members r) userId of
        None \<Rightarrow> Inl TypeError
      | Some him \<Rightarrow>
          let myMembership = getMyMembership r;
              hisMembership = membership him;
              roomDate = roomCreateEventDate r
          in
          if myMembership = ''join'' \<and> hisMembership = ''join'' then
            (if replaces selectedRoom 4 roomDate
             then Inr \<lparr>room = Some r, status = Some ''join-join'', date = Some roomDate, weight = 4\<rparr>
             else Inr selectedRoom)
          else if myMembership = ''invite'' \<and> hisMembership = ''join'' then
            (if replaces selectedRoom 3 roomDate
             then Inr \<lparr>room = Some r, status = Some ''invite-join'', date = Some roomDate, weight = 3\<rparr>
             else Inr selectedRoom)
          else if myMembership = ''join'' \<and> hisMembership = ''invite'' then
            (if replaces selectedRoom 2 roomDate
             then Inr \<lparr>room = Some r, status = Some ''join-invite'', date = Some roomDate, weight = 2\<rparr>
             else Inr selectedRoom)
          else if myMembership = ''join'' \<and> hisMembership = ''leave'' then
            (if replaces selectedRoom 1 roomDate
             then Inr \<lparr>room = Some r, status = Some ''join-leave'', date = Some roomDate, weight = 1\<rparr>
             else Inr selectedRoom)
          else Inr \<lparr>room = None, status = None, date = None, weight = 0\<rparr>)"

text \<open>\<open>roomList.forEach\<close>: an exception in the callback ends the loop.\<close>

fun forEachRoom :: "string \<Rightarrow> selected_room \<Rightarrow> matrix_room list \<Rightarrow> error + selected_room" where
  "forEachRoom userId selectedRoom [] = Inr selectedRoom"
| "forEachRoom userId selectedRoom (r # rs) =
     (case visitRoom userId selectedRoom r of
        Inl e \<Rightarrow> Inl e
      | Inr selectedRoom' \<Rightarrow> forEachRoom userId selectedRoom' rs)"

text \<open>\<open>_selectDirectChat(userId)\<close>; the result \<open>null\<close> is \<open>None\<close>.\<close>

definition selectDirectChat :: "'p matrix_client \<Rightarrow> string \<Rightarrow> error + selected_room option" where
  "selectDirectChat client userId =
     (let roomList = getDirectMessageRooms client userId in
      case forEachRoom userId noSelection roomList of
        Inl e \<Rightarrow> Inl e
      | Inr selectedRoom \<Rightarrow>
          Inr (if room selectedRoom \<noteq> None \<and> status selectedRoom \<noteq> None \<and> date selectedRoom \<noteq> None
               then Some selectedRoom else None))"

section \<open>Asynchronous action creators\<close>

text \<open>
  A dispatched action \<open>{action, result, err}\<close>; a key that the object literal does not
  have is \<open>None\<close>. Results, errors and thrown exceptions are JavaScript values of one
  kind, \<open>'v\<close>.
\<close>

record 'v payload =
  action :: string
  result :: "'v option"
  err :: "'v option"

text \<open>
  What \<open>fn()\<close> does: it returns a promise that is fulfilled with a value, is rejected
  with an error or never settles; or it throws before returning one.
\<close>

datatype 'v deferred = Resolves 'v | Rejects 'v | NeverSettles | Throws 'v

text \<open>
  The \<open>dispatch\<close> argument is any function: it has effects (a state \<open>'s\<close> of its own,
  passed explicitly) and returns normally (\<open>None\<close>) or throws (\<open>Some\<close>). The calls it
  receives are recorded in order.
\<close>

type_synonym ('s, 'v) dispatcher = "'s \<Rightarrow> 'v payload \<Rightarrow> 's \<times> 'v option"

record ('s, 'v) world =
  calls :: "'v payload list"
  dstate :: 's

datatype 'v completion = Returned | Thrown 'v | UnhandledRejection 'v

definition call_dispatch ::
  "('s, 'v) dispatcher \<Rightarrow> 'v payload \<Rightarrow> ('s, 'v) world \<Rightarrow> ('s, 'v) world \<times> 'v option" where
  "call_dispatch dispatch p w =
     (case dispatch (dstate w) p of
        (s', thrown) \<Rightarrow> (\<lparr>calls = calls w @ [p], dstate = s'\<rparr>, thrown))"

text \<open>
  The synchronous part of \<open>asyncAction(id, fn)(dispatch)\<close>: the pending dispatch, then
  the call \<open>fn()\<close>, whose promise gets the two reactions attached. An exception of
  \<open>dispatch\<close> or of \<open>fn\<close> leaves the function at once.
\<close>

definition asyncAction_sync ::
  "string \<Rightarrow> 'v deferred \<Rightarrow> ('s, 'v) dispatcher \<Rightarrow> ('s, 'v) world \<Rightarrow> ('s, 'v) world \<times> 'v completion" where
  "asyncAction_sync ident fn dispatch w =
     (case call_dispatch dispatch \<lparr>action = ident @ ''.pending'', result = None, err = None\<rparr> w of
        (w1, Some ex) \<Rightarrow> (w1, Thrown ex)
      | (w1, None) \<Rightarrow>
          (case fn of Throws ex \<Rightarrow> (w1, Thrown ex) | _ \<Rightarrow> (w1, Returned)))"

text \<open>
  The reactions \<open>.then(...).catch(...)\<close>, run when the promise of \<open>fn\<close> settles. The
  \<open>catch\<close> reaction is attached to the promise that \<open>then\<close> returns: it receives a
  rejection of \<open>fn\<close>'s promise and also an exception thrown inside the \<open>then\<close>
  reaction. An exception inside the \<open>catch\<close> reaction is an unhandled rejection.
\<close>

definition asyncAction_settled ::
  "string \<Rightarrow> 'v deferred \<Rightarrow> ('s, 'v) dispatcher \<Rightarrow> ('s, 'v) world \<Rightarrow> ('s, 'v) world \<times> 'v completion" where
  "asyncAction_settled ident fn dispatch w =
     (let catch = (\<lambda>e w'.
            case call_dispatch dispatch \<lparr>action = ident @ ''.failure'', result = None, err = Some e\<rparr> w' of
              (w3, None) \<Rightarrow> (w3, Returned)
            | (w3, Some ex) \<Rightarrow> (w3, UnhandledRejection ex))
      in case fn of
           Resolves v \<Rightarrow>
             (case call_dispatch dispatch \<lparr>action = ident @ ''.success'', result = Some v, err = None\<rparr> w of
                (w2, None) \<Rightarrow> (w2, Returned)
              | (w2, Some ex) \<Rightarrow> catch ex w2)
         | Rejects e \<Rightarrow> catch e w
         | NeverSettles \<Rightarrow> (w, Returned)
         | Throws ex \<Rightarrow> (w, Returned))"

text \<open>
  One invocation from start to end: the synchronous part and, unless that threw, the
  reactions.
\<close>

definition asyncAction ::
  "string \<Rightarrow> 'v deferred \<Rightarrow> ('s, 'v) dispatcher \<Rightarrow> ('s, 'v) world \<Rightarrow> ('s, 'v) world \<times> 'v completion" where
  "asyncAction ident fn dispatch w =
     (case asyncAction_sync ident fn dispatch w of
        (w1, Returned) \<Rightarrow> asyncAction_settled ident fn dispatch w1
      | (w1, c) \<Rightarrow> (w1, c))"

section \<open>Auxiliary notions and example inputs\<close>

text \<open>
  The four fully populated selections that a room \<open>r\<close> can give rise to.
\<close>

definition candidate :: "matrix_room \<Rightarrow> string \<Rightarrow> nat \<Rightarrow> selected_room" where
  "candidate r l w =
     \<lparr>room = Some r, status = Some l, date = Some (roomCreateEventDate r), weight = w\<rparr>"

definition ranked :: "matrix_room \<Rightarrow> selected_room \<Rightarrow> bool" where
  "ranked r s =
     (s = candidate r ''join-join'' 4 \<or> s = candidate r ''invite-join'' 3 \<or>
      s = candidate r ''join-invite'' 2 \<or> s = candidate r ''join-leave'' 1)"

text \<open>
  The spec's description of a direct-message room, in its words: the membership set
  has exactly two entries, one of which is the target user and the other the caller.
\<close>

definition twoPartyRoom :: "string \<Rightarrow> string \<Rightarrow> matrix_room \<Rightarrow> bool" where
  "twoPartyRoom caller target r =
     (case map fst (members r) of
        [a, b] \<Rightarrow> (a = target \<and> b = caller) \<or> (a = caller \<and> b = target)
      | _ \<Rightarrow> False)"

text \<open>
  Concrete inputs: the caller is \<open>alice\<close>, the target \<open>bob\<close>; \<open>directRoom\<close> is a room
  of the two with the given memberships and creation timestamp, \<open>groupRoom\<close> a room of
  three.
\<close>

definition alice :: string where
  "alice = ''@alice:example.org''"

definition bob :: string where
  "bob = ''@bob:example.org''"

definition directRoom :: "string \<Rightarrow> string \<Rightarrow> string \<Rightarrow> int \<Rightarrow> matrix_room" where
  "directRoom rid mine his ts =
     \<lparr>roomId = rid,
      members = [(alice, \<lparr>membership = mine\<rparr>), (bob, \<lparr>membership = his\<rparr>)],
      getMyMembership = mine,
      createEvents = [\<lparr>getType = ''m.room.create'', getContent = [], origin_server_ts = ts\<rparr>]\<rparr>"

definition groupRoom :: matrix_room where
  "groupRoom =
     \<lparr>roomId = ''!group:example.org'',
      members = [(alice, \<lparr>membership = ''join''\<rparr>), (bob, \<lparr>membership = ''join''\<rparr>),
                 (''@carol:example.org'', \<lparr>membership = ''join''\<rparr>)],
      getMyMembership = ''join'',
      createEvents = [\<lparr>getType = ''m.room.create'', getContent = [], origin_server_ts = 50\<rparr>]\<rparr>"

datatype sdk_call = InviteByEmail string string | Invite string string

definition exampleClient :: "matrix_room list \<Rightarrow> sdk_call matrix_client" where
  "exampleClient rs =
     \<lparr>getUserId = alice, getRooms = rs, inviteByEmail = InviteByEmail, invite = Invite\<rparr>"

definition exampleAddressType :: "string \<Rightarrow> string option" where
  "exampleAddressType a =
     (if a = ''bob@example.org'' then Some ''email''
      else if a = bob then Some ''mx-user-id''
      else if a = ''!group:example.org'' then Some ''mx-room-id''
      else None)"

definition exampleInvite :: matrix_event where
  "exampleInvite =
     \<lparr>getType = ''m.room.third_party_invite'',
      getContent = [(''key_validity_url'', JStr ''https://id.example.org/valid''),
                    (''public_key'', JStr ''abc''), (''display_name'', JStr ''b...@e...'')],
      origin_server_ts = 1\<rparr>"

text \<open>
  Three dispatch functions, each counting its calls: one that always returns, one that
  always throws, and one that throws on the action \<open>foo.success\<close> only.
\<close>

definition countingDispatch :: "(nat, jsval) dispatcher" where
  "countingDispatch n p = (Suc n, None)"

definition failingDispatch :: "(nat, jsval) dispatcher" where
  "failingDispatch n p = (Suc n, Some (JStr ''dispatch failed''))"

definition failingOnSuccess :: "(nat, jsval) dispatcher" where
  "failingOnSuccess n p =
     (Suc n, if action p = ''foo.success'' then Some (JStr ''store failed'') else None)"

section \<open>The room filter\<close>

lemma getDirectMessageRooms_iff:
  "r \<in> set (getDirectMessageRooms c u) \<longleftrightarrow>
     r \<in> set (getRooms c) \<and> length (members r) = 2 \<and>
     u \<in> fst ` set (members r) \<and> getUserId c \<in> fst ` set (members r)"
  by (auto simp: getDirectMessageRooms_def Let_def)

text \<open>
  When the target is not the caller, a kept room has the two of them as its members and
  nobody else.
\<close>

lemma getDirectMessageRooms_two_party:
  assumes "r \<in> set (getDirectMessageRooms c u)" and "u \<noteq> getUserId c"
  shows "fst ` set (members r) = {u, getUserId c}"
proof -
  from assms(1) have len: "length (members r) = 2"
    and u: "u \<in> fst ` set (members r)" and me: "getUserId c \<in> fst ` set (members r)"
    by (simp_all add: getDirectMessageRooms_iff)
  from len obtain x y where xy: "members r = [x, y]"
    by (cases "members r" rule: list.exhaust; simp)
       (metis length_0_conv length_Suc_conv)
  with u me assms(2) show ?thesis by auto
qed

text \<open>
  The test of the filter against the spec's description: they agree when the target is
  not the caller.
\<close>

lemma twoPartyRoom_iff:
  assumes "u \<noteq> me"
  shows "twoPartyRoom me u r \<longleftrightarrow>
           length (members r) = 2 \<and> u \<in> fst ` set (members r) \<and> me \<in> fst ` set (members r)"
proof (cases "members r")
  case Nil
  then show ?thesis by (simp add: twoPartyRoom_def)
next
  case (Cons x xs)
  note outer = Cons
  show ?thesis
  proof (cases xs)
    case Nil
    with outer show ?thesis by (simp add: twoPartyRoom_def)
  next
    case (Cons y ys)
    with outer assms show ?thesis
      by (cases ys) (auto simp: twoPartyRoom_def)
  qed
qed

text \<open>
  Claim C7, as stated, fails when the target is the caller: the test
  \<open>users.includes(addr) && users.includes(currentUserId)\<close> is then passed by any room
  of two in which the caller is, here a room of \<open>alice\<close> and \<open>bob\<close> with \<open>alice\<close> as
  caller and as target, although its two members are not the target and the caller.
\<close>

theorem getDirectMessageRooms_excludes_groups_counterexample:
  "getUserId (exampleClient [directRoom ''!b:example.org'' ''join'' ''invite'' 7]) = alice \<and>
   directRoom ''!b:example.org'' ''join'' ''invite'' 7 \<in>
     set (getDirectMessageRooms
            (exampleClient [directRoom ''!b:example.org'' ''join'' ''invite'' 7]) alice) \<and>
   \<not> twoPartyRoom alice alice (directRoom ''!b:example.org'' ''join'' ''invite'' 7)"
  by (simp add: twoPartyRoom_def getDirectMessageRooms_def exampleClient_def
      directRoom_def alice_def bob_def Let_def)

text \<open>
  Claim C7, amended: a room whose member object has three or more entries is never kept
  by \<open>_getDirectMessageRooms\<close>, whatever the memberships and whoever the target; and
  for a target other than the caller, the rooms kept are exactly the client's rooms with
  exactly two members, one the target and the other the caller.
\<close>

theorem getDirectMessageRooms_excludes_groups:
  "(3 \<le> length (members r) \<longrightarrow> r \<notin> set (getDirectMessageRooms c u)) \<and>
   (u \<noteq> getUserId c \<longrightarrow>
      (r \<in> set (getDirectMessageRooms c u) \<longleftrightarrow>
         r \<in> set (getRooms c) \<and> twoPartyRoom (getUserId c) u r))"
proof -
  have "r \<notin> set (getDirectMessageRooms c u)" if "3 \<le> length (members r)"
    using that by (simp add: getDirectMessageRooms_iff)
  moreover have "r \<in> set (getDirectMessageRooms c u) \<longleftrightarrow>
      r \<in> set (getRooms c) \<and> twoPartyRoom (getUserId c) u r" if "u \<noteq> getUserId c"
    by (simp add: getDirectMessageRooms_iff twoPartyRoom_iff[OF that])
  ultimately show ?thesis by blast
qed

theorem getDirectMessageRooms_excludes_groups_witness:
  "3 \<le> length (members groupRoom) \<and>
   bob \<noteq> getUserId (exampleClient [groupRoom, directRoom ''!a:example.org'' ''join'' ''join'' 100]) \<and>
   groupRoom \<notin> set (getDirectMessageRooms
       (exampleClient [groupRoom, directRoom ''!a:example.org'' ''join'' ''join'' 100]) bob) \<and>
   twoPartyRoom alice bob (directRoom ''!a:example.org'' ''join'' ''join'' 100) \<and>
   directRoom ''!a:example.org'' ''join'' ''join'' 100 \<in> set (getDirectMessageRooms
       (exampleClient [groupRoom, directRoom ''!a:example.org'' ''join'' ''join'' 100]) bob)"
  using getDirectMessageRooms_excludes_groups
      [of groupRoom "exampleClient [groupRoom, directRoom ''!a:example.org'' ''join'' ''join'' 100]" bob]
    getDirectMessageRooms_excludes_groups
      [of "directRoom ''!a:example.org'' ''join'' ''join'' 100"
          "exampleClient [groupRoom, directRoom ''!a:example.org'' ''join'' ''join'' 100]" bob]
  by (simp add: twoPartyRoom_def groupRoom_def directRoom_def exampleClient_def alice_def bob_def)

section \<open>The selection loop\<close>

lemma member_lookup:
  assumes "u \<in> fst ` set ms"
  obtains him where "map_of ms u = Some him"
  using assms by (cases "map_of ms u") (auto simp: map_of_eq_None_iff)

lemma replaces_noSelection: "0 < w \<Longrightarrow> replaces noSelection w d"
  by (simp add: replaces_def noSelection_def)

lemma visitRoom_join_join:
  assumes "getMyMembership r = ''join''" "map_of (members r) u = Some him" "membership him = ''join''"
  shows "visitRoom u s r =
           Inr (if replaces s 4 (roomCreateEventDate r)
                then \<lparr>room = Some r, status = Some ''join-join'',
                        date = Some (roomCreateEventDate r), weight = 4\<rparr>
                else s)"
  using assms by (simp add: visitRoom_def Let_def)

text \<open>
  A room whose pair of memberships is none of the four ranked ones: the \<open>else\<close> branch
  assigns the empty selection, whatever was selected before.
\<close>

lemma visitRoom_no_match:
  assumes "map_of (members r) u = Some him"
    and "\<not> (getMyMembership r = ''join'' \<and> membership him = ''join'')"
    and "\<not> (getMyMembership r = ''invite'' \<and> membership him = ''join'')"
    and "\<not> (getMyMembership r = ''join'' \<and> membership him = ''invite'')"
    and "\<not> (getMyMembership r = ''join'' \<and> membership him = ''leave'')"
  shows "visitRoom u s r = Inr noSelection"
  using assms by (auto simp: visitRoom_def Let_def noSelection_def)

text \<open>
  One step of the loop on a room that has the target among its members: no exception,
  and the selection is kept, emptied, or replaced by a candidate built from this room.
\<close>

lemma visitRoom_step:
  assumes "u \<in> fst ` set (members r)"
  shows "\<exists>s'. visitRoom u s r = Inr s' \<and> (s' = s \<or> s' = noSelection \<or> ranked r s')"
proof -
  from assms obtain him where him: "map_of (members r) u = Some him"
    by (rule member_lookup)
  show ?thesis
    by (simp add: visitRoom_def him Let_def ranked_def candidate_def noSelection_def)
qed

lemma forEachRoom_ranked:
  assumes "\<forall>r \<in> set rs. u \<in> fst ` set (members r)"
    and "set rs \<subseteq> R"
    and "s = noSelection \<or> (\<exists>r \<in> R. ranked r s)"
  shows "\<exists>s'. forEachRoom u s rs = Inr s' \<and> (s' = noSelection \<or> (\<exists>r \<in> R. ranked r s'))"
  using assms
proof (induction rs arbitrary: s)
  case Nil
  then show ?case by simp
next
  case (Cons x xs)
  from Cons.prems(1) have "u \<in> fst ` set (members x)" by simp
  then obtain s1 where s1: "visitRoom u s x = Inr s1"
    and alt: "s1 = s \<or> s1 = noSelection \<or> ranked x s1"
    using visitRoom_step by blast
  from Cons.prems(2) have xR: "x \<in> R" by simp
  from alt Cons.prems(3) xR have inv: "s1 = noSelection \<or> (\<exists>r \<in> R. ranked r s1)"
    by blast
  from Cons.prems have "\<forall>r \<in> set xs. u \<in> fst ` set (members r)" "set xs \<subseteq> R"
    by simp_all
  from Cons.IH[OF this inv] show ?case by (simp add: s1)
qed

lemma selectDirectChat_of_run:
  assumes "forEachRoom u noSelection (getDirectMessageRooms c u) = Inr s"
  shows "selectDirectChat c u =
           Inr (if room s \<noteq> None \<and> status s \<noteq> None \<and> date s \<noteq> None then Some s else None)"
  using assms by (simp add: selectDirectChat_def Let_def)

text \<open>
  Claim C9: \<open>_selectDirectChat\<close> raises nothing and returns \<open>null\<close> or a selection
  with all fields set: its room is one of the rooms kept by the filter, its date that
  room's creation timestamp, and its status and weight are one of the four pairs
  \<open>join-join\<close>/4, \<open>invite-join\<close>/3, \<open>join-invite\<close>/2, \<open>join-leave\<close>/1. It never
  returns weight 0, a \<open>null\<close> room or another status.
\<close>

theorem selectDirectChat_result:
  "selectDirectChat c u = Inr None \<or>
   (\<exists>r. r \<in> set (getDirectMessageRooms c u) \<and>
      (selectDirectChat c u =
         Inr (Some \<lparr>room = Some r, status = Some ''join-join'',
                     date = Some (roomCreateEventDate r), weight = 4\<rparr>) \<or>
       selectDirectChat c u =
         Inr (Some \<lparr>room = Some r, status = Some ''invite-join'',
                     date = Some (roomCreateEventDate r), weight = 3\<rparr>) \<or>
       selectDirectChat c u =
         Inr (Some \<lparr>room = Some r, status = Some ''join-invite'',
                     date = Some (roomCreateEventDate r), weight = 2\<rparr>) \<or>
       selectDirectChat c u =
         Inr (Some \<lparr>room = Some r, status = Some ''join-leave'',
                     date = Some (roomCreateEventDate r), weight = 1\<rparr>)))"
proof -
  let ?L = "getDirectMessageRooms c u"
  have "\<forall>r \<in> set ?L. u \<in> fst ` set (members r)"
    by (simp add: getDirectMessageRooms_iff)
  then obtain s' where run: "forEachRoom u noSelection ?L = Inr s'"
    and inv: "s' = noSelection \<or> (\<exists>r \<in> set ?L. ranked r s')"
    using forEachRoom_ranked[of ?L u "set ?L" noSelection] by auto
  from inv show ?thesis
  proof
    assume "s' = noSelection"
    then have "selectDirectChat c u = Inr None"
      using selectDirectChat_of_run[OF run] by (simp add: noSelection_def)
    then show ?thesis by simp
  next
    assume "\<exists>r \<in> set ?L. ranked r s'"
    then obtain r where r: "r \<in> set ?L" and rk: "ranked r s'" by blast
    from rk have "selectDirectChat c u = Inr (Some s')"
      using selectDirectChat_of_run[OF run] by (auto simp: ranked_def candidate_def)
    with r rk show ?thesis
      unfolding ranked_def candidate_def by auto
  qed
qed

text \<open>
  Claim C6: when the filter keeps exactly one room and both the caller (as
  \<open>getMyMembership()\<close> tells) and the target have membership \<open>join\<close> in it,
  \<open>_selectDirectChat\<close> returns that room with weight 4 and the status of a mutual
  join, which the code spells \<open>join-join\<close>.
\<close>

theorem selectDirectChat_single_join_join:
  assumes "getDirectMessageRooms c u = [r]"
    and "getMyMembership r = ''join''"
    and "map_of (members r) u = Some him"
    and "membership him = ''join''"
  shows "selectDirectChat c u =
           Inr (Some \<lparr>room = Some r, status = Some ''join-join'',
                       date = Some (roomCreateEventDate r), weight = 4\<rparr>)"
proof -
  have "forEachRoom u noSelection (getDirectMessageRooms c u) =
          Inr \<lparr>room = Some r, status = Some ''join-join'',
                date = Some (roomCreateEventDate r), weight = 4\<rparr>"
    using assms by (simp add: visitRoom_join_join replaces_noSelection)
  from selectDirectChat_of_run[OF this] show ?thesis by simp
qed

theorem selectDirectChat_single_join_join_witness:
  "getDirectMessageRooms
     (exampleClient [groupRoom, directRoom ''!a:example.org'' ''join'' ''join'' 100]) bob =
     [directRoom ''!a:example.org'' ''join'' ''join'' 100] \<and>
   selectDirectChat
     (exampleClient [groupRoom, directRoom ''!a:example.org'' ''join'' ''join'' 100]) bob =
     Inr (Some \<lparr>room = Some (directRoom ''!a:example.org'' ''join'' ''join'' 100),
                 status = Some ''join-join'', date = Some 100, weight = 4\<rparr>)"
  using selectDirectChat_single_join_join
      [of "exampleClient [groupRoom, directRoom ''!a:example.org'' ''join'' ''join'' 100]" bob
          "directRoom ''!a:example.org'' ''join'' ''join'' 100" "\<lparr>membership = ''join''\<rparr>"]
  by (simp add: getDirectMessageRooms_def exampleClient_def groupRoom_def directRoom_def
      roomCreateEventDate_def alice_def bob_def Let_def)

text \<open>
  Claim C2: when the filter keeps exactly two rooms, both with memberships
  \<open>join\<close>/\<open>join\<close>, and the creation timestamp of \<open>r1\<close> is smaller than that of
  \<open>r2\<close>, \<open>_selectDirectChat\<close> returns \<open>r1\<close>, in whichever order the two rooms are
  visited.
\<close>

theorem selectDirectChat_earliest_join_join:
  assumes two: "getDirectMessageRooms c u = [r1, r2] \<or> getDirectMessageRooms c u = [r2, r1]"
    and j1: "getMyMembership r1 = ''join''" "map_of (members r1) u = Some him1"
            "membership him1 = ''join''"
    and j2: "getMyMembership r2 = ''join''" "map_of (members r2) u = Some him2"
            "membership him2 = ''join''"
    and lt: "roomCreateEventDate r1 < roomCreateEventDate r2"
  shows "selectDirectChat c u =
           Inr (Some \<lparr>room = Some r1, status = Some ''join-join'',
                       date = Some (roomCreateEventDate r1), weight = 4\<rparr>)"
proof -
  let ?best = "\<lparr>room = Some r1, status = Some ''join-join'',
                 date = Some (roomCreateEventDate r1), weight = 4\<rparr>"
  let ?other = "\<lparr>room = Some r2, status = Some ''join-join'',
                  date = Some (roomCreateEventDate r2), weight = 4\<rparr>"
  have v1: "visitRoom u s r1 = Inr (if replaces s 4 (roomCreateEventDate r1) then ?best else s)" for s
    using j1 by (rule visitRoom_join_join)
  have v2: "visitRoom u s r2 = Inr (if replaces s 4 (roomCreateEventDate r2) then ?other else s)" for s
    using j2 by (rule visitRoom_join_join)
  have keep: "\<not> replaces ?best 4 (roomCreateEventDate r2)"
    using lt by (simp add: replaces_def date_less_def)
  have swap: "replaces ?other 4 (roomCreateEventDate r1)"
    using lt by (simp add: replaces_def date_less_def)
  have a: "forEachRoom u noSelection [r1, r2] = Inr ?best"
    by (simp add: v1 v2 replaces_noSelection keep)
  have b: "forEachRoom u noSelection [r2, r1] = Inr ?best"
    by (simp add: v1 v2 replaces_noSelection swap)
  from two a b have "forEachRoom u noSelection (getDirectMessageRooms c u) = Inr ?best"
    by auto
  from selectDirectChat_of_run[OF this] show ?thesis by simp
qed

theorem selectDirectChat_earliest_join_join_witness:
  "selectDirectChat
     (exampleClient [directRoom ''!late:example.org'' ''join'' ''join'' 200, groupRoom,
                     directRoom ''!early:example.org'' ''join'' ''join'' 100]) bob =
     Inr (Some \<lparr>room = Some (directRoom ''!early:example.org'' ''join'' ''join'' 100),
                 status = Some ''join-join'', date = Some 100, weight = 4\<rparr>) \<and>
   selectDirectChat
     (exampleClient [directRoom ''!early:example.org'' ''join'' ''join'' 100,
                     directRoom ''!late:example.org'' ''join'' ''join'' 200]) bob =
     Inr (Some \<lparr>room = Some (directRoom ''!early:example.org'' ''join'' ''join'' 100),
                 status = Some ''join-join'', date = Some 100, weight = 4\<rparr>)"
  using selectDirectChat_earliest_join_join
      [of "exampleClient [directRoom ''!late:example.org'' ''join'' ''join'' 200, groupRoom,
                          directRoom ''!early:example.org'' ''join'' ''join'' 100]" bob
          "directRoom ''!early:example.org'' ''join'' ''join'' 100"
          "directRoom ''!late:example.org'' ''join'' ''join'' 200"
          "\<lparr>membership = ''join''\<rparr>" "\<lparr>membership = ''join''\<rparr>"]
    selectDirectChat_earliest_join_join
      [of "exampleClient [directRoom ''!early:example.org'' ''join'' ''join'' 100,
                          directRoom ''!late:example.org'' ''join'' ''join'' 200]" bob
          "directRoom ''!early:example.org'' ''join'' ''join'' 100"
          "directRoom ''!late:example.org'' ''join'' ''join'' 200"
          "\<lparr>membership = ''join''\<rparr>" "\<lparr>membership = ''join''\<rparr>"]
  by (simp add: getDirectMessageRooms_def exampleClient_def groupRoom_def directRoom_def
      roomCreateEventDate_def alice_def bob_def Let_def)

text \<open>
  Claim C5, as stated, fails when the target is the caller: no room of the client
  \<open>alice\<close> has exactly two members of which one is the target \<open>alice\<close> and the other
  the caller \<open>alice\<close>, yet her room with \<open>bob\<close> passes the filter, the target's
  membership read there is her own, and \<open>_selectDirectChat\<close> returns that room.
\<close>

theorem selectDirectChat_no_direct_room_counterexample:
  "filter (twoPartyRoom alice alice)
     (getRooms (exampleClient [directRoom ''!a:example.org'' ''join'' ''join'' 100])) = [] \<and>
   selectDirectChat (exampleClient [directRoom ''!a:example.org'' ''join'' ''join'' 100]) alice =
     Inr (Some \<lparr>room = Some (directRoom ''!a:example.org'' ''join'' ''join'' 100),
                 status = Some ''join-join'', date = Some 100, weight = 4\<rparr>) \<and>
   selectDirectChat (exampleClient [directRoom ''!a:example.org'' ''join'' ''join'' 100]) alice \<noteq>
     Inr None"
  by (simp add: twoPartyRoom_def selectDirectChat_def getDirectMessageRooms_def exampleClient_def
      directRoom_def visitRoom_def replaces_def noSelection_def roomCreateEventDate_def
      alice_def bob_def Let_def)

text \<open>
  Claim C5, amended: for a target other than the caller, when none of the client's
  rooms has a membership set of exactly two entries, one the target and the other the
  caller, \<open>_selectDirectChat\<close> returns \<open>null\<close>.
\<close>

theorem selectDirectChat_no_direct_room:
  assumes "u \<noteq> getUserId c"
    and "\<forall>r \<in> set (getRooms c). \<not> twoPartyRoom (getUserId c) u r"
  shows "selectDirectChat c u = Inr None"
proof -
  have "getDirectMessageRooms c u = []"
    using assms(2)
    by (auto simp: getDirectMessageRooms_def Let_def filter_empty_conv
        twoPartyRoom_iff[OF assms(1)])
  then have "forEachRoom u noSelection (getDirectMessageRooms c u) = Inr noSelection"
    by simp
  from selectDirectChat_of_run[OF this] show ?thesis by (simp add: noSelection_def)
qed

theorem selectDirectChat_no_direct_room_witness:
  "bob \<noteq> getUserId (exampleClient [groupRoom]) \<and>
   filter (twoPartyRoom alice bob) (getRooms (exampleClient [groupRoom])) = [] \<and>
   selectDirectChat (exampleClient [groupRoom]) bob = Inr None"
  using selectDirectChat_no_direct_room [of bob "exampleClient [groupRoom]"]
  by (simp add: twoPartyRoom_def exampleClient_def groupRoom_def alice_def bob_def)

lemma forEachRoom_append:
  "forEachRoom u s (xs @ ys) =
     (case forEachRoom u s xs of Inl e \<Rightarrow> Inl e | Inr s' \<Rightarrow> forEachRoom u s' ys)"
  by (induction xs arbitrary: s) (auto split: sum.splits)

text \<open>
  Whatever the earlier rooms are, a last room of the filtered list that matches none of
  the four ranked states makes the result \<open>null\<close>.
\<close>

lemma selectDirectChat_last_room_no_match:
  assumes last: "getDirectMessageRooms c u = rs @ [r]"
    and him: "map_of (members r) u = Some him"
    and no_match:
      "\<not> (getMyMembership r = ''join'' \<and> membership him = ''join'')"
      "\<not> (getMyMembership r = ''invite'' \<and> membership him = ''join'')"
      "\<not> (getMyMembership r = ''join'' \<and> membership him = ''invite'')"
      "\<not> (getMyMembership r = ''join'' \<and> membership him = ''leave'')"
  shows "selectDirectChat c u = Inr None"
proof -
  have "\<forall>x \<in> set rs. u \<in> fst ` set (members x)"
  proof
    fix x assume "x \<in> set rs"
    then have "x \<in> set (getDirectMessageRooms c u)" by (simp add: last)
    then show "u \<in> fst ` set (members x)" by (simp add: getDirectMessageRooms_iff)
  qed
  then obtain s' where before: "forEachRoom u noSelection rs = Inr s'"
    using forEachRoom_ranked[of rs u "set rs" noSelection] by auto
  have "visitRoom u s' r = Inr noSelection"
    using him no_match by (rule visitRoom_no_match)
  then have "forEachRoom u noSelection (getDirectMessageRooms c u) = Inr noSelection"
    by (simp add: last forEachRoom_append before)
  from selectDirectChat_of_run[OF this] show ?thesis by (simp add: noSelection_def)
qed

text \<open>
  Claim C1 says that a room of weight 4 survives a later room of the filtered list that
  matches none of the four ranked states. The code does otherwise: with the
  \<open>join\<close>/\<open>join\<close> room first and a \<open>leave\<close>/\<open>leave\<close> room second, the \<open>else\<close>
  branch empties the selection and the result is \<open>null\<close>; with the same two rooms in
  the other order the result is the \<open>join\<close>/\<open>join\<close> room.
\<close>

theorem selectDirectChat_later_rejection_erases:
  "selectDirectChat
     (exampleClient [directRoom ''!a:example.org'' ''join'' ''join'' 100,
                     directRoom ''!b:example.org'' ''leave'' ''leave'' 200]) bob = Inr None \<and>
   selectDirectChat
     (exampleClient [directRoom ''!b:example.org'' ''leave'' ''leave'' 200,
                     directRoom ''!a:example.org'' ''join'' ''join'' 100]) bob =
     Inr (Some \<lparr>room = Some (directRoom ''!a:example.org'' ''join'' ''join'' 100),
                 status = Some ''join-join'', date = Some 100, weight = 4\<rparr>)"
  by (simp add: selectDirectChat_def getDirectMessageRooms_def exampleClient_def directRoom_def
      visitRoom_def replaces_def noSelection_def roomCreateEventDate_def date_less_def
      alice_def bob_def Let_def)

section \<open>Inviting one address: the error\<close>

text \<open>
  Claim C8: \<open>_inviteToRoom\<close> raises \<open>Unsupported address\<close>, and nothing else, exactly
  when the type of the address is neither \<open>email\<close> nor \<open>mx-user-id\<close>; for an
  \<open>email\<close> address it returns what the client's \<open>inviteByEmail\<close> returns, for an
  \<open>mx-user-id\<close> what the client's \<open>invite\<close> returns, both called with the room id
  and the address.
\<close>

theorem inviteToRoom_unsupported_iff:
  "(inviteToRoom getAddressType client rid addr = Inl UnsupportedAddress \<longleftrightarrow>
      getAddressType addr \<noteq> Some ''email'' \<and> getAddressType addr \<noteq> Some ''mx-user-id'') \<and>
   (\<forall>e. inviteToRoom getAddressType client rid addr = Inl e \<longrightarrow> e = UnsupportedAddress) \<and>
   (getAddressType addr = Some ''email'' \<longrightarrow>
      inviteToRoom getAddressType client rid addr = Inr (inviteByEmail client rid addr)) \<and>
   (getAddressType addr = Some ''mx-user-id'' \<longrightarrow>
      inviteToRoom getAddressType client rid addr = Inr (invite client rid addr))"
  by (simp add: inviteToRoom_def Let_def)

theorem inviteToRoom_unsupported_iff_witness:
  "inviteToRoom exampleAddressType (exampleClient []) ''!a:example.org'' ''bob@example.org'' =
     Inr (InviteByEmail ''!a:example.org'' ''bob@example.org'') \<and>
   inviteToRoom exampleAddressType (exampleClient []) ''!a:example.org'' bob =
     Inr (Invite ''!a:example.org'' bob) \<and>
   inviteToRoom exampleAddressType (exampleClient []) ''!a:example.org'' ''!group:example.org'' =
     Inl UnsupportedAddress \<and>
   inviteToRoom exampleAddressType (exampleClient []) ''!a:example.org'' ''bob'' =
     Inl UnsupportedAddress"
  using inviteToRoom_unsupported_iff
      [of exampleAddressType "exampleClient []" "''!a:example.org''" "''bob@example.org''"]
    inviteToRoom_unsupported_iff
      [of exampleAddressType "exampleClient []" "''!a:example.org''" bob]
    inviteToRoom_unsupported_iff
      [of exampleAddressType "exampleClient []" "''!a:example.org''" "''!group:example.org''"]
    inviteToRoom_unsupported_iff
      [of exampleAddressType "exampleClient []" "''!a:example.org''" "''bob''"]
  by (simp add: exampleAddressType_def exampleClient_def bob_def)

section \<open>Third-party invites: validity\<close>

lemma requiredKeysLoop_0:
  "requiredKeysLoop e 0 =
     (truthy (js_get (getContent e) ''key_validity_url'') \<and>
      truthy (js_get (getContent e) ''public_key'') \<and>
      truthy (js_get (getContent e) ''display_name''))"
proof -
  have l3: "requiredKeysLoop e (Suc (Suc (Suc 0))) = True"
    by (subst requiredKeysLoop.simps) (simp add: requiredKeys_def)
  have l2: "requiredKeysLoop e (Suc (Suc 0)) = truthy (js_get (getContent e) ''display_name'')"
    by (subst requiredKeysLoop.simps) (simp add: requiredKeys_def l3)
  have l1: "requiredKeysLoop e (Suc 0) =
      (truthy (js_get (getContent e) ''public_key'') \<and>
       truthy (js_get (getContent e) ''display_name''))"
    by (subst requiredKeysLoop.simps) (simp add: requiredKeys_def l2)
  show ?thesis
    by (subst requiredKeysLoop.simps) (simp add: requiredKeys_def l1)
qed

text \<open>
  Claim C10: \<open>isValid3pidInvite\<close> returns true exactly when the event is not
  \<open>null\<close>, its type is \<open>m.room.third_party_invite\<close> and its content has a truthy
  value under each of \<open>key_validity_url\<close>, \<open>public_key\<close> and \<open>display_name\<close>; in
  every other case it returns false.
\<close>

theorem isValid3pidInvite_iff:
  "isValid3pidInvite event \<longleftrightarrow>
     (\<exists>e. event = Some e \<and> getType e = ''m.room.third_party_invite'' \<and>
          truthy (js_get (getContent e) ''key_validity_url'') \<and>
          truthy (js_get (getContent e) ''public_key'') \<and>
          truthy (js_get (getContent e) ''display_name''))"
proof (cases event)
  case None
  then show ?thesis by (simp add: isValid3pidInvite_def)
next
  case (Some e)
  then show ?thesis by (simp add: isValid3pidInvite_def requiredKeysLoop_0)
qed

theorem isValid3pidInvite_iff_witness:
  "isValid3pidInvite (Some exampleInvite) \<and>
   \<not> isValid3pidInvite (Some (exampleInvite\<lparr>getContent := [(''public_key'', JStr ''abc''),
        (''key_validity_url'', JStr []), (''display_name'', JStr ''b'')]\<rparr>)) \<and>
   \<not> isValid3pidInvite (Some (exampleInvite\<lparr>getType := ''m.room.member''\<rparr>)) \<and>
   \<not> isValid3pidInvite None"
  using isValid3pidInvite_iff [of "Some exampleInvite"]
    isValid3pidInvite_iff [of "Some (exampleInvite\<lparr>getContent := [(''public_key'', JStr ''abc''),
        (''key_validity_url'', JStr []), (''display_name'', JStr ''b'')]\<rparr>)"]
    isValid3pidInvite_iff [of "Some (exampleInvite\<lparr>getType := ''m.room.member''\<rparr>)"]
    isValid3pidInvite_iff [of None]
  by (simp add: exampleInvite_def js_get_def)

section \<open>Asynchronous action creators: the dispatched actions\<close>

lemma call_dispatch_returns:
  assumes "snd (dispatch (dstate w) p) = None"
  shows "call_dispatch dispatch p w =
           (\<lparr>calls = calls w @ [p], dstate = fst (dispatch (dstate w) p)\<rparr>, None)"
  using assms by (cases "dispatch (dstate w) p") (simp add: call_dispatch_def)

text \<open>
  A \<open>dispatch\<close> that throws on the success action is called a third time, by the
  \<open>catch\<close> reaction, with a failure action that carries the exception.
\<close>

lemma asyncAction_success_dispatch_throws:
  "calls (fst (asyncAction ''foo'' (Resolves (JNum 42)) failingOnSuccess
                 \<lparr>calls = [], dstate = 0\<rparr>)) =
     [\<lparr>action = ''foo.pending'', result = None, err = None\<rparr>,
      \<lparr>action = ''foo.success'', result = Some (JNum 42), err = None\<rparr>,
      \<lparr>action = ''foo.failure'', result = None, err = Some (JStr ''store failed'')\<rparr>]"
  by (simp add: asyncAction_def asyncAction_sync_def asyncAction_settled_def call_dispatch_def
      failingOnSuccess_def)

text \<open>
  Claim C3, as stated for every dispatch function, fails for one that throws: the
  exception of the pending dispatch leaves the action creator before \<open>fn\<close> is called,
  and the pending action is the only one dispatched.
\<close>

theorem asyncAction_resolves_counterexample:
  "calls (fst (asyncAction ''foo'' (Resolves (JNum 42)) failingDispatch
                 \<lparr>calls = [], dstate = 0\<rparr>)) =
     [\<lparr>action = ''foo.pending'', result = None, err = None\<rparr>] \<and>
   calls (fst (asyncAction ''foo'' (Resolves (JNum 42)) failingDispatch
                 \<lparr>calls = [], dstate = 0\<rparr>)) \<noteq>
     [\<lparr>action = ''foo.pending'', result = None, err = None\<rparr>,
      \<lparr>action = ''foo.success'', result = Some (JNum 42), err = None\<rparr>]"
  by (simp add: asyncAction_def asyncAction_sync_def call_dispatch_def failingDispatch_def)

text \<open>
  Claim C3, amended: for every id, every operation that resolves with \<open>V\<close> and every
  dispatch function that returns normally from the pending and from the success call,
  the invocation makes exactly two dispatch calls: the pending action in the synchronous
  part, before the promise settles, and then the success action carrying \<open>V\<close>; no
  exception escapes.
\<close>

theorem asyncAction_resolves:
  fixes dispatch :: "('s, 'v) dispatcher" and V :: 'v
  assumes pending_ok:
      "snd (dispatch (dstate w) \<lparr>action = ident @ ''.pending'', result = None, err = None\<rparr>) = None"
    and success_ok:
      "snd (dispatch (fst (dispatch (dstate w)
                \<lparr>action = ident @ ''.pending'', result = None, err = None\<rparr>))
              \<lparr>action = ident @ ''.success'', result = Some V, err = None\<rparr>) = None"
  shows "calls (fst (asyncAction_sync ident (Resolves V) dispatch w)) =
           calls w @ [\<lparr>action = ident @ ''.pending'', result = None, err = None\<rparr>] \<and>
         calls (fst (asyncAction ident (Resolves V) dispatch w)) =
           calls w @ [\<lparr>action = ident @ ''.pending'', result = None, err = None\<rparr>,
                      \<lparr>action = ident @ ''.success'', result = Some V, err = None\<rparr>] \<and>
         snd (asyncAction ident (Resolves V) dispatch w) = Returned"
proof -
  let ?p = "\<lparr>action = ident @ ''.pending'', result = None :: 'v option, err = None\<rparr>"
  let ?s = "\<lparr>action = ident @ ''.success'', result = Some V, err = None\<rparr>"
  let ?w1 = "\<lparr>calls = calls w @ [?p], dstate = fst (dispatch (dstate w) ?p)\<rparr>"
  have sync: "asyncAction_sync ident (Resolves V) dispatch w = (?w1, Returned)"
    by (simp add: asyncAction_sync_def
        call_dispatch_returns[where dispatch = dispatch and w = w and p = "?p", OF pending_ok])
  have "snd (dispatch (dstate ?w1) ?s) = None"
    using success_ok by simp
  from call_dispatch_returns[where dispatch = dispatch and w = "?w1" and p = "?s", OF this]
  have settled: "asyncAction_settled ident (Resolves V) dispatch ?w1 =
      (\<lparr>calls = calls w @ [?p, ?s], dstate = fst (dispatch (dstate ?w1) ?s)\<rparr>, Returned)"
    by (simp add: asyncAction_settled_def)
  show ?thesis
    by (simp add: asyncAction_def sync settled)
qed

theorem asyncAction_resolves_witness:
  "calls (fst (asyncAction_sync ''foo'' (Resolves (JNum 42)) countingDispatch
                 \<lparr>calls = [], dstate = 0\<rparr>)) =
     [\<lparr>action = ''foo.pending'', result = None, err = None\<rparr>] \<and>
   calls (fst (asyncAction ''foo'' (Resolves (JNum 42)) countingDispatch
                 \<lparr>calls = [], dstate = 0\<rparr>)) =
     [\<lparr>action = ''foo.pending'', result = None, err = None\<rparr>,
      \<lparr>action = ''foo.success'', result = Some (JNum 42), err = None\<rparr>]"
  using asyncAction_resolves
      [of countingDispatch "\<lparr>calls = [], dstate = 0\<rparr>" "''foo''" "JNum 42"]
  by (simp add: countingDispatch_def)

text \<open>
  Claim C4, as stated for every dispatch function, fails in the same way: when the
  pending dispatch throws, \<open>fn\<close> is never called and neither a success nor a failure
  action is dispatched.
\<close>

theorem asyncAction_rejects_counterexample:
  "calls (fst (asyncAction ''foo'' (Rejects (JStr ''bad'')) failingDispatch
                 \<lparr>calls = [], dstate = 0\<rparr>)) =
     [\<lparr>action = ''foo.pending'', result = None, err = None\<rparr>] \<and>
   calls (fst (asyncAction ''foo'' (Rejects (JStr ''bad'')) failingDispatch
                 \<lparr>calls = [], dstate = 0\<rparr>)) \<noteq>
     [\<lparr>action = ''foo.pending'', result = None, err = None\<rparr>,
      \<lparr>action = ''foo.failure'', result = None, err = Some (JStr ''bad'')\<rparr>]"
  by (simp add: asyncAction_def asyncAction_sync_def call_dispatch_def failingDispatch_def)

text \<open>
  Claim C4, amended: for every id, every operation that fails with \<open>E\<close> and every
  dispatch function that returns normally from the pending call, the invocation makes
  exactly two dispatch calls: the pending action in the synchronous part, then the
  failure action carrying \<open>E\<close>. So exactly one of the success and failure actions is
  dispatched, the failure, and it comes after the pending one.
\<close>

theorem asyncAction_rejects:
  fixes dispatch :: "('s, 'v) dispatcher" and E :: 'v
  assumes pending_ok:
      "snd (dispatch (dstate w) \<lparr>action = ident @ ''.pending'', result = None, err = None\<rparr>) = None"
  shows "calls (fst (asyncAction_sync ident (Rejects E) dispatch w)) =
           calls w @ [\<lparr>action = ident @ ''.pending'', result = None, err = None\<rparr>] \<and>
         calls (fst (asyncAction ident (Rejects E) dispatch w)) =
           calls w @ [\<lparr>action = ident @ ''.pending'', result = None, err = None\<rparr>,
                      \<lparr>action = ident @ ''.failure'', result = None, err = Some E\<rparr>]"
proof -
  let ?p = "\<lparr>action = ident @ ''.pending'', result = None :: 'v option, err = None\<rparr>"
  let ?f = "\<lparr>action = ident @ ''.failure'', result = None, err = Some E\<rparr>"
  let ?w1 = "\<lparr>calls = calls w @ [?p], dstate = fst (dispatch (dstate w) ?p)\<rparr>"
  have sync: "asyncAction_sync ident (Rejects E) dispatch w = (?w1, Returned)"
    by (simp add: asyncAction_sync_def
        call_dispatch_returns[where dispatch = dispatch and w = w and p = "?p", OF pending_ok])
  have "calls (fst (asyncAction_settled ident (Rejects E) dispatch ?w1)) = calls w @ [?p, ?f]"
    by (simp add: asyncAction_settled_def call_dispatch_def split: prod.splits option.splits)
  then show ?thesis
    by (simp add: asyncAction_def sync)
qed

theorem asyncAction_rejects_witness:
  "calls (fst (asyncAction ''foo'' (Rejects (JStr ''bad'')) countingDispatch
                 \<lparr>calls = [], dstate = 0\<rparr>)) =
     [\<lparr>action = ''foo.pending'', result = None, err = None\<rparr>,
      \<lparr>action = ''foo.failure'', result = None, err = Some (JStr ''bad'')\<rparr>]"
  using asyncAction_rejects
      [of countingDispatch "\<lparr>calls = [], dstate = 0\<rparr>" "''foo''" "JStr ''bad''"]
  by (simp add: countingDispatch_def)

end
